theory Spec2Isabelle
  imports Complex_Main
begin

section \<open>Values, errors and data series\<close>

text \<open>
  The module \<open>pyalgotrade/technical/bollinger.py\<close> works on data series of optional
  numbers: \<open>None\<close> is Python's \<open>None\<close> (no value), \<open>Some x\<close> a number. A number is
  modelled as a real and an arithmetic expression of the source as the real expression
  of the same shape; the rounding of binary floating point is not modelled. An exception
  is a value of type \<open>error\<close>.
\<close>

type_synonym dateTime = nat

datatype error = ConfigError | IndexError | TypeError | ZeroDivisionError

record series =
  ds_maxLen :: "nat option"
  ds_entries :: "(dateTime \<times> real option) list"

text \<open>
  Modelled from the spec: \<open>dataseries.SequenceDataSeries\<close>, whose module is not part of
  the sources at hand. A series is created empty with a capacity. The docstring of
  \<open>BollingerBands\<close> says that \<open>maxLen = None\<close> stands for \<open>dataseries.DEFAULT_MAX_LEN\<close>;
  that constant is the parameter \<open>DEFAULT_MAX_LEN\<close> here, \<open>None\<close> when retention is
  unbounded.
\<close>

definition SequenceDataSeries :: "nat option \<Rightarrow> nat option \<Rightarrow> series" where
  "SequenceDataSeries DEFAULT_MAX_LEN maxLen =
     \<lparr>ds_maxLen = (case maxLen of None \<Rightarrow> DEFAULT_MAX_LEN | Some m \<Rightarrow> Some m),
      ds_entries = []\<rparr>"

text \<open>
  Modelled from the spec: \<open>SequenceDataSeries.appendWithDateTime\<close>. The pair is stored
  at the end; a bounded series that is over its capacity discards from the opposite end.
\<close>

definition appendWithDateTime :: "dateTime \<Rightarrow> real option \<Rightarrow> series \<Rightarrow> series" where
  "appendWithDateTime dateTime val s =
     (let es = ds_entries s @ [(dateTime, val)]
      in s\<lparr>ds_entries :=
              (case ds_maxLen s of None \<Rightarrow> es | Some m \<Rightarrow> drop (length es - m) es)\<rparr>)"

text \<open>
  Modelled from the spec: \<open>DataSeries.__getitem__\<close>. A negative position counts from the
  most recent entry; a position outside the stored range raises \<open>IndexError\<close>; a stored
  \<open>None\<close> is returned as it is.
\<close>

definition getitem :: "series \<Rightarrow> int \<Rightarrow> error + real option" where
  "getitem s key =
     (let len = int (length (ds_entries s));
          pos = (if key < 0 then key + len else key)
      in if pos < 0 \<or> len \<le> pos then Inl IndexError
         else Inr (snd (ds_entries s ! nat pos)))"

section \<open>The Bollinger bands object\<close>

text \<open>
  The fields of \<open>BollingerBands\<close>. \<open>bb_sma\<close> and \<open>bb_stdDev\<close> are the series of the two
  statistic objects the composite owns; \<open>getMiddleBand\<close> returns \<open>bb_sma\<close> itself.
\<close>

record bollinger =
  bb_sma :: series
  bb_stdDev :: series
  bb_upperBand :: series
  bb_lowerBand :: series
  bb_numStdDev :: real
  bb_bandWidth :: series

text \<open>
  Lines 61 to 71 of \<open>__onNewValue\<close>: the three values of the tick, or the exception
  raised while computing them. \<open>stdDev * numStdDev\<close> with \<open>stdDev = None\<close> raises
  \<open>TypeError\<close>; \<open>stdDev / sma\<close> with \<open>sma = 0\<close> raises \<open>ZeroDivisionError\<close>, as the
  division of Python numbers does.
\<close>

definition band_values ::
  "bollinger \<Rightarrow> real option \<Rightarrow> error + (real option \<times> real option \<times> real option)" where
  "band_values self val =
     (if val \<noteq> None then
        (case getitem (bb_sma self) (- 1) of
           Inl e \<Rightarrow> Inl e
         | Inr None \<Rightarrow> Inr (None, None, None)
         | Inr (Some sma) \<Rightarrow>
             (case getitem (bb_stdDev self) (- 1) of
                Inl e \<Rightarrow> Inl e
              | Inr None \<Rightarrow> Inl TypeError
              | Inr (Some stdDev) \<Rightarrow>
                  (let upperValue = sma + stdDev * bb_numStdDev self;
                       lowerValue = sma + stdDev * bb_numStdDev self * - 1
                   in if sma = 0 then Inl ZeroDivisionError
                      else Inr (Some upperValue, Some lowerValue, Some (stdDev / sma)))))
      else Inr (None, None, None))"

text \<open>
  \<open>BollingerBands.__onNewValue\<close>. The result is the object after the call and the
  exception that left the call, if any: an exception of lines 61 to 71 leaves before
  the three appends of lines 73 to 75.
\<close>

definition onNewValue ::
  "bollinger \<Rightarrow> dateTime \<Rightarrow> real option \<Rightarrow> bollinger \<times> error option" where
  "onNewValue self dateTime val =
     (case band_values self val of
        Inl e \<Rightarrow> (self, Some e)
      | Inr (upperValue, lowerValue, bandWidth) \<Rightarrow>
          (self\<lparr>bb_upperBand := appendWithDateTime dateTime upperValue (bb_upperBand self),
                bb_lowerBand := appendWithDateTime dateTime lowerValue (bb_lowerBand self),
                bb_bandWidth := appendWithDateTime dateTime bandWidth (bb_bandWidth self)\<rparr>,
           None))"


section \<open>Statistic providers, subscription and notification\<close>

text \<open>
  The modules \<open>ma\<close>, \<open>stats\<close> and \<open>dataseries\<close> are not part of the sources at hand;
  the definitions of this section follow the spec. A subscriber of the source series
  is one of the bound methods below; \<open>Other\<close> is a subscriber that belongs to another
  object and leaves the composite alone.
\<close>

datatype handler =
  SMA_onNewValue nat | StdDev_onNewValue nat | BollingerBands_onNewValue | Other

text \<open>
  The source series with its new-value event (the subscribers in registration order)
  and the composite built on it.
\<close>

record pipeline =
  dataSeries :: series
  newValueEvent :: "handler list"
  bands :: bollinger

text \<open>Modelled from the spec: \<open>Event.subscribe\<close> registers a handler after the earlier ones.\<close>

definition subscribe :: "handler \<Rightarrow> handler list \<Rightarrow> handler list" where
  "subscribe h event = event @ [h]"

text \<open>
  Modelled from the spec: the trailing window of a statistic provider. It is absent
  when the source holds fewer than \<open>period\<close> entries or one of its last \<open>period\<close>
  values is absent.
\<close>

definition window :: "nat \<Rightarrow> series \<Rightarrow> real list option" where
  "window period s =
     (let vs = map snd (ds_entries s)
      in if length vs < period then None else those (drop (length vs - period) vs))"

definition mean :: "real list \<Rightarrow> real" where
  "mean xs = sum_list xs / real (length xs)"

definition stddev :: "real list \<Rightarrow> real" where
  "stddev xs = sqrt (sum_list (map (\<lambda>x. (x - mean xs)\<^sup>2) xs) / real (length xs))"

text \<open>
  Modelled from the spec: the values \<open>ma.SMA\<close> and \<open>stats.StdDev\<close> compute on a
  notification: the arithmetic mean and the population standard deviation of the window.
\<close>

definition SMA_value :: "nat \<Rightarrow> series \<Rightarrow> real option" where
  "SMA_value period s = map_option mean (window period s)"

definition StdDev_value :: "nat \<Rightarrow> series \<Rightarrow> real option" where
  "StdDev_value period s = map_option stddev (window period s)"

text \<open>
  Modelled from the spec: the constructors \<open>ma.SMA\<close> and \<open>stats.StdDev\<close>. A period
  below 2 is a \<open>ConfigError\<close>; otherwise the provider is an empty series of its own,
  and its handler is subscribed to the source at construction.
\<close>

definition SMA ::
  "nat option \<Rightarrow> handler list \<Rightarrow> int \<Rightarrow> nat option \<Rightarrow> error + (series \<times> handler list)" where
  "SMA DEFAULT_MAX_LEN event period maxLen =
     (if period < 2 then Inl ConfigError
      else Inr (SequenceDataSeries DEFAULT_MAX_LEN maxLen,
                subscribe (SMA_onNewValue (nat period)) event))"

definition StdDev ::
  "nat option \<Rightarrow> handler list \<Rightarrow> int \<Rightarrow> nat option \<Rightarrow> error + (series \<times> handler list)" where
  "StdDev DEFAULT_MAX_LEN event period maxLen =
     (if period < 2 then Inl ConfigError
      else Inr (SequenceDataSeries DEFAULT_MAX_LEN maxLen,
                subscribe (StdDev_onNewValue (nat period)) event))"

text \<open>
  \<open>BollingerBands.__init__\<close>, lines 42 to 49, on a source series \<open>src\<close> whose event has
  the subscribers \<open>event\<close>: the two providers are constructed first, the three output
  series next, and the composite's own handler is subscribed last. An exception of a
  provider's constructor leaves \<open>__init__\<close>.
\<close>

definition BollingerBands ::
  "nat option \<Rightarrow> series \<Rightarrow> handler list \<Rightarrow> int \<Rightarrow> real \<Rightarrow> nat option \<Rightarrow> error + pipeline" where
  "BollingerBands DEFAULT_MAX_LEN src event period numStdDev maxLen =
     (case SMA DEFAULT_MAX_LEN event period maxLen of
        Inl e \<Rightarrow> Inl e
      | Inr (sma, event1) \<Rightarrow>
          (case StdDev DEFAULT_MAX_LEN event1 period maxLen of
             Inl e \<Rightarrow> Inl e
           | Inr (stdDev, event2) \<Rightarrow>
               Inr \<lparr>dataSeries = src,
                    newValueEvent = subscribe BollingerBands_onNewValue event2,
                    bands =
                      \<lparr>bb_sma = sma, bb_stdDev = stdDev,
                       bb_upperBand = SequenceDataSeries DEFAULT_MAX_LEN maxLen,
                       bb_lowerBand = SequenceDataSeries DEFAULT_MAX_LEN maxLen,
                       bb_numStdDev = numStdDev,
                       bb_bandWidth = SequenceDataSeries DEFAULT_MAX_LEN maxLen\<rparr>\<rparr>))"

text \<open>
  One subscriber called with a notification. Modelled from the spec: a provider
  appends its value for the tick, absent or not, to its own series. The composite's
  subscriber is \<open>onNewValue\<close>.
\<close>

fun call :: "handler \<Rightarrow> dateTime \<Rightarrow> real option \<Rightarrow> pipeline \<Rightarrow> pipeline \<times> error option" where
  "call (SMA_onNewValue period) dateTime val p =
     (p\<lparr>bands := (bands p)\<lparr>bb_sma :=
          appendWithDateTime dateTime (SMA_value period (dataSeries p)) (bb_sma (bands p))\<rparr>\<rparr>,
      None)"
| "call (StdDev_onNewValue period) dateTime val p =
     (p\<lparr>bands := (bands p)\<lparr>bb_stdDev :=
          appendWithDateTime dateTime (StdDev_value period (dataSeries p))
            (bb_stdDev (bands p))\<rparr>\<rparr>,
      None)"
| "call BollingerBands_onNewValue dateTime val p =
     (case onNewValue (bands p) dateTime val of (b, r) \<Rightarrow> (p\<lparr>bands := b\<rparr>, r))"
| "call Other dateTime val p = (p, None)"

text \<open>
  Modelled from the spec: \<open>Event.emit\<close> calls the subscribers one after the other in
  registration order; an exception of a subscriber ends the notification.
\<close>

fun emit :: "handler list \<Rightarrow> dateTime \<Rightarrow> real option \<Rightarrow> pipeline \<Rightarrow> pipeline \<times> error option" where
  "emit [] dateTime val p = (p, None)"
| "emit (h # hs) dateTime val p =
     (case call h dateTime val p of
        (p', Some e) \<Rightarrow> (p', Some e)
      | (p', None) \<Rightarrow> emit hs dateTime val p')"

text \<open>
  Modelled from the spec: an append to the source series stores the value and then
  notifies the subscribers.
\<close>

definition source_append :: "dateTime \<Rightarrow> real option \<Rightarrow> pipeline \<Rightarrow> pipeline \<times> error option" where
  "source_append dateTime val p =
     (let p' = p\<lparr>dataSeries := appendWithDateTime dateTime val (dataSeries p)\<rparr>
      in emit (newValueEvent p') dateTime val p')"

text \<open>The producer: the ticks are appended in turn, until one of the appends raises.\<close>

fun feed :: "(dateTime \<times> real option) list \<Rightarrow> pipeline \<Rightarrow> pipeline \<times> error option" where
  "feed [] p = (p, None)"
| "feed ((dateTime, val) # ticks) p =
     (case source_append dateTime val p of
        (p', Some e) \<Rightarrow> (p', Some e)
      | (p', None) \<Rightarrow> feed ticks p')"

text \<open>The number of entries a series of capacity \<open>cap\<close> holds after \<open>n\<close> appends.\<close>

definition held :: "nat option \<Rightarrow> nat \<Rightarrow> nat" where
  "held cap n = (case cap of None \<Rightarrow> n | Some m \<Rightarrow> min n m)"

text \<open>
  The pipeline at the moment the composite's handler is called in the notification of
  \<open>(dateTime, val)\<close>, as the spec describes it: the value is stored in the source and
  both statistic series of period \<open>n\<close> hold their entry for this tick.
\<close>

definition at_handler :: "nat \<Rightarrow> dateTime \<Rightarrow> real option \<Rightarrow> pipeline \<Rightarrow> pipeline" where
  "at_handler n dateTime val p =
     (let src = appendWithDateTime dateTime val (dataSeries p)
      in p\<lparr>dataSeries := src,
            bands := (bands p)
              \<lparr>bb_sma := appendWithDateTime dateTime (SMA_value n src) (bb_sma (bands p)),
               bb_stdDev :=
                 appendWithDateTime dateTime (StdDev_value n src) (bb_stdDev (bands p))\<rparr>\<rparr>)"

text \<open>
  What a series of capacity \<open>cap\<close> retains of the sequence \<open>xs\<close> appended to it, the
  oldest entry first.
\<close>

definition latest :: "nat option \<Rightarrow> 'a list \<Rightarrow> 'a list" where
  "latest cap xs = (case cap of None \<Rightarrow> xs | Some m \<Rightarrow> drop (length xs - m) xs)"

text \<open>
  The three output series have capacity \<open>cap\<close>, and the timestamps of their entries are
  what such a series retains of the timestamps \<open>ts\<close>.
\<close>

definition aligned :: "nat option \<Rightarrow> dateTime list \<Rightarrow> bollinger \<Rightarrow> bool" where
  "aligned cap ts b =
     (ds_maxLen (bb_upperBand b) = cap \<and>
      map fst (ds_entries (bb_upperBand b)) = latest cap ts \<and>
      ds_maxLen (bb_lowerBand b) = cap \<and>
      map fst (ds_entries (bb_lowerBand b)) = latest cap ts \<and>
      ds_maxLen (bb_bandWidth b) = cap \<and>
      map fst (ds_entries (bb_bandWidth b)) = latest cap ts)"

section \<open>Example states\<close>

text \<open>
  The composite after one tick without statistics, at the moment its handler is called
  for a second tick: the statistic series already hold their entry for that tick.
  In \<open>ex_zero_mean\<close> the window was \<open>-1, 1\<close> (mean 0, deviation 1), in \<open>ex_ready\<close> it was
  \<open>10, 12\<close> (mean 11, deviation 1); in \<open>ex_no_stdDev\<close> the deviation series holds \<open>None\<close>
  where the mean is defined.
\<close>

definition ex_first :: series where
  "ex_first = \<lparr>ds_maxLen = None, ds_entries = [(1, None)]\<rparr>"

definition ex_stat :: "real option \<Rightarrow> series" where
  "ex_stat x = \<lparr>ds_maxLen = None, ds_entries = [(1, None), (2, x)]\<rparr>"

definition ex_bands :: "real option \<Rightarrow> real option \<Rightarrow> bollinger" where
  "ex_bands m d =
     \<lparr>bb_sma = ex_stat m, bb_stdDev = ex_stat d, bb_upperBand = ex_first,
      bb_lowerBand = ex_first, bb_numStdDev = 2, bb_bandWidth = ex_first\<rparr>"

definition ex_zero_mean :: bollinger where
  "ex_zero_mean = ex_bands (Some 0) (Some 1)"

definition ex_ready :: bollinger where
  "ex_ready = ex_bands (Some 11) (Some 1)"

definition ex_no_stdDev :: bollinger where
  "ex_no_stdDev = ex_bands (Some 11) None"

definition ex_not_ready :: bollinger where
  "ex_not_ready = ex_bands None None"

text \<open>
  An empty source without bound, and the pipeline that \<open>BollingerBands\<close> builds on it
  with period 2 and two standard deviations, when \<open>DEFAULT_MAX_LEN\<close> is unbounded.
\<close>

definition ex_source :: series where
  "ex_source = \<lparr>ds_maxLen = None, ds_entries = []\<rparr>"

definition ex_pipeline :: "handler list \<Rightarrow> nat option \<Rightarrow> pipeline" where
  "ex_pipeline event maxLen =
     \<lparr>dataSeries = ex_source,
      newValueEvent =
        event @ [SMA_onNewValue 2, StdDev_onNewValue 2, BollingerBands_onNewValue],
      bands =
        \<lparr>bb_sma = \<lparr>ds_maxLen = maxLen, ds_entries = []\<rparr>,
         bb_stdDev = \<lparr>ds_maxLen = maxLen, ds_entries = []\<rparr>,
         bb_upperBand = \<lparr>ds_maxLen = maxLen, ds_entries = []\<rparr>,
         bb_lowerBand = \<lparr>ds_maxLen = maxLen, ds_entries = []\<rparr>,
         bb_numStdDev = 2,
         bb_bandWidth = \<lparr>ds_maxLen = maxLen, ds_entries = []\<rparr>\<rparr>\<rparr>"

section \<open>Properties of the handler\<close>

lemma getitem_ex_stat: "getitem (ex_stat x) (- 1) = Inr x"
  by (simp add: getitem_def ex_stat_def)

lemma band_values_absent:
  "val = None \<or> getitem (bb_sma self) (- 1) = Inr None \<Longrightarrow>
   band_values self val = Inr (None, None, None)"
  by (auto simp: band_values_def)

lemma band_values_present:
  assumes "val = Some v"
    and "getitem (bb_sma self) (- 1) = Inr (Some sma)"
    and "getitem (bb_stdDev self) (- 1) = Inr (Some stdDev)"
  shows "band_values self val =
           (if sma = 0 then Inl ZeroDivisionError
            else Inr (Some (sma + stdDev * bb_numStdDev self),
                      Some (sma - stdDev * bb_numStdDev self),
                      Some (stdDev / sma)))"
  using assms by (simp add: band_values_def)

text \<open>
  C1 (as amended). When the source value is present, the moving average's latest value
  is present and not zero, and the standard deviation's latest value is present, the
  handler appends \<open>sma + sd * numStdDev\<close> to the upper band, \<open>sma - sd * numStdDev\<close> to
  the lower band and \<open>sd / sma\<close> to the band width, each with the timestamp of the
  notification, and raises nothing.
\<close>

theorem onNewValue_appends_bands:
  assumes "val = Some v"
    and "getitem (bb_sma self) (- 1) = Inr (Some sma)"
    and "getitem (bb_stdDev self) (- 1) = Inr (Some sd)"
    and "sma \<noteq> 0"
  shows "onNewValue self dateTime val =
           (self\<lparr>bb_upperBand :=
                    appendWithDateTime dateTime (Some (sma + sd * bb_numStdDev self))
                      (bb_upperBand self),
                  bb_lowerBand :=
                    appendWithDateTime dateTime (Some (sma - sd * bb_numStdDev self))
                      (bb_lowerBand self),
                  bb_bandWidth :=
                    appendWithDateTime dateTime (Some (sd / sma)) (bb_bandWidth self)\<rparr>,
            None)"
  using assms(4) by (simp add: onNewValue_def band_values_present [OF assms(1-3)])

theorem onNewValue_appends_bands_witness:
  "onNewValue ex_ready 2 (Some 12) =
     (ex_ready\<lparr>bb_upperBand := appendWithDateTime 2 (Some 13) ex_first,
                bb_lowerBand := appendWithDateTime 2 (Some 9) ex_first,
                bb_bandWidth := appendWithDateTime 2 (Some (1 / 11)) ex_first\<rparr>,
      None)"
proof -
  have m: "getitem (bb_sma ex_ready) (- 1) = Inr (Some 11)"
    and d: "getitem (bb_stdDev ex_ready) (- 1) = Inr (Some 1)"
    by (simp_all add: ex_ready_def ex_bands_def getitem_ex_stat)
  have z: "(11::real) \<noteq> 0" by simp
  show ?thesis
    using onNewValue_appends_bands [OF refl m d z, where v = 12 and dateTime = 2]
    by (simp add: ex_ready_def ex_bands_def)
qed

text \<open>
  C1 as stated fails where the moving average is zero: the source value, the average
  and the deviation are all present, yet the handler raises and no series receives
  an entry.
\<close>

theorem onNewValue_zero_mean_counterexample:
  "getitem (bb_sma ex_zero_mean) (- 1) = Inr (Some 0) \<and>
   getitem (bb_stdDev ex_zero_mean) (- 1) = Inr (Some 1) \<and>
   onNewValue ex_zero_mean 2 (Some 1) = (ex_zero_mean, Some ZeroDivisionError) \<and>
   bb_upperBand (fst (onNewValue ex_zero_mean 2 (Some 1))) \<noteq>
     appendWithDateTime 2 (Some (0 + 1 * bb_numStdDev ex_zero_mean))
       (bb_upperBand ex_zero_mean)"
  by (simp add: onNewValue_def band_values_def ex_zero_mean_def ex_bands_def
      getitem_ex_stat appendWithDateTime_def ex_first_def)

text \<open>
  C2. When the source value is absent, or the moving average's latest value is absent,
  the handler appends \<open>None\<close> to the upper band, the lower band and the band width,
  and leaves the moving-average series (the middle band) as it is.
\<close>

theorem onNewValue_appends_absent:
  assumes "val = None \<or> getitem (bb_sma self) (- 1) = Inr None"
  shows "onNewValue self dateTime val =
           (self\<lparr>bb_upperBand := appendWithDateTime dateTime None (bb_upperBand self),
                  bb_lowerBand := appendWithDateTime dateTime None (bb_lowerBand self),
                  bb_bandWidth := appendWithDateTime dateTime None (bb_bandWidth self)\<rparr>,
            None) \<and>
         bb_sma (fst (onNewValue self dateTime val)) = bb_sma self"
  by (simp add: onNewValue_def band_values_absent [OF assms])

theorem onNewValue_appends_absent_witness:
  "ds_entries (bb_upperBand (fst (onNewValue ex_not_ready 2 (Some 12)))) =
     [(1, None), (2, None)] \<and>
   ds_entries (bb_lowerBand (fst (onNewValue ex_ready 2 None))) = [(1, None), (2, None)] \<and>
   bb_sma (fst (onNewValue ex_ready 2 None)) = bb_sma ex_ready"
proof -
  have a: "Some (12::real) = None \<or> getitem (bb_sma ex_not_ready) (- 1) = Inr None"
    by (simp add: ex_not_ready_def ex_bands_def getitem_ex_stat)
  have b: "(None::real option) = None \<or> getitem (bb_sma ex_ready) (- 1) = Inr None"
    by simp
  show ?thesis
    using onNewValue_appends_absent [OF a, where dateTime = 2]
      onNewValue_appends_absent [OF b, where dateTime = 2]
    by (simp add: ex_not_ready_def ex_ready_def ex_bands_def ex_first_def
        appendWithDateTime_def)
qed

text \<open>
  C8. An exception raised while the handler computes the band values is not caught:
  it leaves the handler, and the object is then exactly as it was before the call, so
  none of the upper band, lower band and band width has received an entry for the tick.
\<close>

theorem onNewValue_error_unchanged:
  "(band_values self val = Inl e \<longrightarrow> onNewValue self dateTime val = (self, Some e)) \<and>
   (snd (onNewValue self dateTime val) = Some e \<longrightarrow>
      band_values self val = Inl e \<and> fst (onNewValue self dateTime val) = self)"
  by (auto simp: onNewValue_def split: sum.splits prod.splits)

theorem onNewValue_error_unchanged_witness:
  "band_values ex_zero_mean (Some 1) = Inl ZeroDivisionError \<and>
   onNewValue ex_zero_mean 2 (Some 1) = (ex_zero_mean, Some ZeroDivisionError) \<and>
   ds_entries (bb_bandWidth (fst (onNewValue ex_zero_mean 2 (Some 1)))) = [(1, None)]"
proof -
  have h: "band_values ex_zero_mean (Some 1) = Inl ZeroDivisionError"
    by (simp add: band_values_def ex_zero_mean_def ex_bands_def getitem_ex_stat)
  from onNewValue_error_unchanged [of ex_zero_mean "Some 1" ZeroDivisionError 2] h
  have "onNewValue ex_zero_mean 2 (Some 1) = (ex_zero_mean, Some ZeroDivisionError)"
    by blast
  with h show ?thesis by (simp add: ex_zero_mean_def ex_bands_def ex_first_def)
qed

text \<open>
  C10. When the source value and the moving average's latest value are present and the
  standard deviation's latest value is \<open>None\<close>, the handler raises \<open>TypeError\<close> at
  \<open>stdDev * numStdDev\<close> and appends nothing.
\<close>

theorem onNewValue_stdDev_absent:
  assumes "val = Some v"
    and "getitem (bb_sma self) (- 1) = Inr (Some sma)"
    and "getitem (bb_stdDev self) (- 1) = Inr None"
  shows "onNewValue self dateTime val = (self, Some TypeError)"
  using assms by (simp add: onNewValue_def band_values_def)

theorem onNewValue_stdDev_absent_witness:
  "onNewValue ex_no_stdDev 2 (Some 12) = (ex_no_stdDev, Some TypeError)"
proof -
  have m: "getitem (bb_sma ex_no_stdDev) (- 1) = Inr (Some 11)"
    and d: "getitem (bb_stdDev ex_no_stdDev) (- 1) = Inr None"
    by (simp_all add: ex_no_stdDev_def ex_bands_def getitem_ex_stat)
  show ?thesis using onNewValue_stdDev_absent [OF refl m d, where v = 12 and dateTime = 2] by simp
qed

section \<open>Properties of construction and notification\<close>

lemma maxLen_appendWithDateTime [simp]:
  "ds_maxLen (appendWithDateTime dateTime x s) = ds_maxLen s"
  by (simp add: appendWithDateTime_def Let_def)

lemma length_appendWithDateTime:
  "length (ds_entries (appendWithDateTime dateTime x s)) =
     (case ds_maxLen s of None \<Rightarrow> Suc (length (ds_entries s))
      | Some m \<Rightarrow> min (Suc (length (ds_entries s))) m)"
  by (auto simp: appendWithDateTime_def Let_def min_def simp del: drop_append
      split: option.splits)

lemma entries_appendWithDateTime:
  "ds_entries (appendWithDateTime dateTime x s) =
     latest (ds_maxLen s) (ds_entries s @ [(dateTime, x)])"
  by (simp add: appendWithDateTime_def latest_def Let_def split: option.splits)

lemma length_latest: "length (latest cap xs) = held cap (length xs)"
  by (auto simp: latest_def held_def split: option.splits)

lemma map_latest: "map f (latest cap xs) = latest cap (map f xs)"
  by (simp add: latest_def drop_map split: option.splits)

lemma latest_snoc: "latest cap (latest cap xs @ [x]) = latest cap (xs @ [x])"
proof (cases cap)
  case None
  then show ?thesis by (simp add: latest_def)
next
  case (Some m)
  show ?thesis
  proof (cases "length xs \<le> m")
    case True
    with Some show ?thesis by (simp add: latest_def)
  next
    case False
    then have "Suc (length xs) - m = Suc (length xs - m)" by simp
    with False Some show ?thesis by (simp add: latest_def)
  qed
qed

lemma appendWithDateTime_latest:
  assumes "ds_maxLen s = cap" and "map fst (ds_entries s) = latest cap ts"
  shows "map fst (ds_entries (appendWithDateTime dateTime x s)) = latest cap (ts @ [dateTime])"
proof -
  have "map fst (ds_entries (appendWithDateTime dateTime x s)) =
          latest cap (map fst (ds_entries s) @ [dateTime])"
    using assms(1) by (simp add: entries_appendWithDateTime map_latest)
  also have "\<dots> = latest cap (ts @ [dateTime])"
    by (simp only: assms(2) latest_snoc)
  finally show ?thesis .
qed

lemma getitem_last:
  assumes "ds_entries s \<noteq> []"
  shows "getitem s (- 1) = Inr (snd (last (ds_entries s)))"
  using assms
  by (cases "ds_entries s" rule: rev_cases) (simp_all add: getitem_def Let_def)

lemma getitem_appendWithDateTime:
  assumes "ds_maxLen s \<noteq> Some 0"
  shows "getitem (appendWithDateTime dateTime x s) (- 1) = Inr x"
proof -
  let ?es = "ds_entries s @ [(dateTime, x)]"
  let ?k = "case ds_maxLen s of None \<Rightarrow> 0 | Some m \<Rightarrow> length ?es - m"
  have es: "ds_entries (appendWithDateTime dateTime x s) = drop ?k ?es"
    by (simp add: appendWithDateTime_def Let_def split: option.splits)
  have k: "?k < length ?es"
    using assms by (auto split: option.splits)
  then have ne: "drop ?k ?es \<noteq> []" by simp
  have "last (drop ?k ?es) = last ?es"
    using k by (rule last_drop)
  then have "snd (last (drop ?k ?es)) = x" by simp
  with getitem_last [of "appendWithDateTime dateTime x s"] ne es
  show ?thesis by simp
qed

lemma emit_Other:
  assumes "set event \<subseteq> {Other}"
  shows "emit (event @ hs) dateTime val p = emit hs dateTime val p"
  using assms by (induction event) auto

lemma onNewValue_appends:
  assumes "onNewValue b dateTime val = (b', None)"
  shows "\<exists>u l w.
           bb_upperBand b' = appendWithDateTime dateTime u (bb_upperBand b) \<and>
           bb_lowerBand b' = appendWithDateTime dateTime l (bb_lowerBand b) \<and>
           bb_bandWidth b' = appendWithDateTime dateTime w (bb_bandWidth b)"
  using assms by (auto simp: onNewValue_def split: sum.splits prod.splits)

lemma onNewValue_aligned:
  assumes "onNewValue b dateTime val = (b', None)" and "aligned cap ts b"
  shows "aligned cap (ts @ [dateTime]) b'"
proof -
  from onNewValue_appends [OF assms(1)] obtain u l w
    where "bb_upperBand b' = appendWithDateTime dateTime u (bb_upperBand b)"
      and "bb_lowerBand b' = appendWithDateTime dateTime l (bb_lowerBand b)"
      and "bb_bandWidth b' = appendWithDateTime dateTime w (bb_bandWidth b)"
    by blast
  with assms(2) show ?thesis
    by (simp add: aligned_def appendWithDateTime_latest)
qed

lemma source_append_at_handler:
  assumes "newValueEvent p =
             event @ [SMA_onNewValue n, StdDev_onNewValue n, BollingerBands_onNewValue]"
    and "set event \<subseteq> {Other}"
  shows "source_append dateTime val p =
           call BollingerBands_onNewValue dateTime val (at_handler n dateTime val p)"
  using assms
  by (simp add: source_append_def at_handler_def Let_def emit_Other
      split: prod.splits option.splits)

lemma emit_preserves:
  assumes "\<And>h q. f (fst (call h dateTime val q)) = f q"
  shows "f (fst (emit hs dateTime val p)) = f p"
proof (induction hs arbitrary: p)
  case Nil
  show ?case by simp
next
  case (Cons h hs)
  show ?case
    using Cons.IH [of "fst (call h dateTime val p)"] assms [of h p]
    by (auto split: prod.splits option.splits)
qed

lemma source_append_preserves:
  assumes "\<And>h dateTime val q. f (fst (call h dateTime val q)) = f q"
    and "\<And>q s. f (q\<lparr>dataSeries := s\<rparr>) = f q"
  shows "f (fst (source_append dateTime val p)) = f p"
  unfolding source_append_def Let_def
  by (simp add: emit_preserves [where f = f, OF assms(1)] assms(2))

lemma feed_preserves:
  assumes "\<And>h dateTime val q. f (fst (call h dateTime val q)) = f q"
    and "\<And>q s. f (q\<lparr>dataSeries := s\<rparr>) = f q"
  shows "f (fst (feed ticks p)) = f p"
proof (induction ticks arbitrary: p)
  case Nil
  show ?case by simp
next
  case (Cons t ticks)
  obtain dateTime val where t: "t = (dateTime, val)" by (cases t)
  show ?case
    using Cons.IH [of "fst (source_append dateTime val p)"]
      source_append_preserves [where f = f, OF assms, of dateTime val p]
    by (auto simp: t split: prod.splits option.splits)
qed

lemma call_newValueEvent:
  "newValueEvent (fst (call h dateTime val p)) = newValueEvent p"
  by (cases h) (auto split: prod.splits)

lemma call_sma_maxLen:
  "ds_maxLen (bb_sma (bands (fst (call h dateTime val p)))) = ds_maxLen (bb_sma (bands p))"
  by (cases h) (auto simp: onNewValue_def split: prod.splits sum.splits)

lemma call_stdDev_maxLen:
  "ds_maxLen (bb_stdDev (bands (fst (call h dateTime val p)))) =
     ds_maxLen (bb_stdDev (bands p))"
  by (cases h) (auto simp: onNewValue_def split: prod.splits sum.splits)

lemma source_append_newValueEvent:
  "newValueEvent (fst (source_append dateTime val p)) = newValueEvent p"
  by (rule source_append_preserves [where f = newValueEvent])
    (simp_all add: call_newValueEvent)

lemma feed_newValueEvent:
  "newValueEvent (fst (feed ticks p)) = newValueEvent p"
  by (rule feed_preserves [where f = newValueEvent]) (simp_all add: call_newValueEvent)

lemma feed_sma_maxLen:
  "ds_maxLen (bb_sma (bands (fst (feed ticks p)))) = ds_maxLen (bb_sma (bands p))"
  by (rule feed_preserves [where f = "\<lambda>q. ds_maxLen (bb_sma (bands q))"])
    (simp_all add: call_sma_maxLen)

lemma feed_stdDev_maxLen:
  "ds_maxLen (bb_stdDev (bands (fst (feed ticks p)))) = ds_maxLen (bb_stdDev (bands p))"
  by (rule feed_preserves [where f = "\<lambda>q. ds_maxLen (bb_stdDev (bands q))"])
    (simp_all add: call_stdDev_maxLen)

lemma call_dataSeries: "dataSeries (fst (call h dateTime val p)) = dataSeries p"
  by (cases h) (auto split: prod.splits)

lemma source_append_dataSeries:
  "dataSeries (fst (source_append dateTime val p)) =
     appendWithDateTime dateTime val (dataSeries p)"
  unfolding source_append_def Let_def
  by (simp add: emit_preserves [where f = dataSeries] call_dataSeries)

lemma feed_dataSeries:
  assumes "feed ticks p = (p', None)"
  shows "dataSeries p' =
           foldl (\<lambda>s t. appendWithDateTime (fst t) (snd t) s) (dataSeries p) ticks"
  using assms
proof (induction ticks arbitrary: p)
  case Nil
  then show ?case by simp
next
  case (Cons t ticks)
  obtain dateTime val where t: "t = (dateTime, val)" by (cases t)
  obtain q r where q: "source_append dateTime val p = (q, r)"
    by (cases "source_append dateTime val p")
  with Cons.prems have rest: "feed ticks q = (p', None)"
    by (auto simp: t split: option.splits)
  have "dataSeries q = appendWithDateTime dateTime val (dataSeries p)"
    using source_append_dataSeries [of dateTime val p] by (simp add: q)
  with Cons.IH [OF rest] show ?case by (simp add: t)
qed

lemma source_append_appends:
  assumes ev: "newValueEvent p =
             event @ [SMA_onNewValue n, StdDev_onNewValue n, BollingerBands_onNewValue]"
    and oth: "set event \<subseteq> {Other}"
    and ok: "source_append dateTime val p = (p', None)"
  shows "\<exists>u l w.
           bb_upperBand (bands p') = appendWithDateTime dateTime u (bb_upperBand (bands p)) \<and>
           bb_lowerBand (bands p') = appendWithDateTime dateTime l (bb_lowerBand (bands p)) \<and>
           bb_bandWidth (bands p') = appendWithDateTime dateTime w (bb_bandWidth (bands p))"
proof -
  let ?q = "at_handler n dateTime val p"
  from ok have "call BollingerBands_onNewValue dateTime val ?q = (p', None)"
    by (simp add: source_append_at_handler [OF ev oth])
  then have "onNewValue (bands ?q) dateTime val = (bands p', None)"
    by (auto split: prod.splits)
  from onNewValue_appends [OF this] show ?thesis
    by (simp add: at_handler_def Let_def)
qed

lemma source_append_aligned:
  assumes ev: "newValueEvent p =
             event @ [SMA_onNewValue n, StdDev_onNewValue n, BollingerBands_onNewValue]"
    and oth: "set event \<subseteq> {Other}"
    and al: "aligned cap ts (bands p)"
    and ok: "source_append dateTime val p = (p', None)"
  shows "aligned cap (ts @ [dateTime]) (bands p')"
proof -
  from source_append_appends [OF ev oth ok] obtain u l w
    where "bb_upperBand (bands p') = appendWithDateTime dateTime u (bb_upperBand (bands p))"
      and "bb_lowerBand (bands p') = appendWithDateTime dateTime l (bb_lowerBand (bands p))"
      and "bb_bandWidth (bands p') = appendWithDateTime dateTime w (bb_bandWidth (bands p))"
    by blast
  with al show ?thesis
    by (simp add: aligned_def appendWithDateTime_latest)
qed

lemma feed_aligned:
  assumes "newValueEvent p =
             event @ [SMA_onNewValue n, StdDev_onNewValue n, BollingerBands_onNewValue]"
    and "set event \<subseteq> {Other}"
    and "aligned cap ts (bands p)"
    and "feed ticks p = (p', None)"
  shows "aligned cap (ts @ map fst ticks) (bands p')"
  using assms
proof (induction ticks arbitrary: p ts)
  case Nil
  then show ?case by simp
next
  case (Cons t ticks)
  obtain dateTime val where t: "t = (dateTime, val)" by (cases t)
  obtain q r where q: "source_append dateTime val p = (q, r)"
    by (cases "source_append dateTime val p")
  with Cons.prems(4) have r: "r = None" and rest: "feed ticks q = (p', None)"
    by (auto simp: t split: option.splits)
  have ev: "newValueEvent q = newValueEvent p"
    using source_append_newValueEvent [of dateTime val p] by (simp add: q)
  have "aligned cap (ts @ [dateTime]) (bands q)"
    using source_append_aligned [OF Cons.prems(1,2,3)] q r by simp
  from Cons.IH [OF _ Cons.prems(2) this rest] ev Cons.prems(1)
  show ?case by (simp add: t)
qed

lemma BollingerBands_Inr:
  assumes "BollingerBands D src event period k maxLen = Inr p0"
  shows "2 \<le> period"
    and "p0 = \<lparr>dataSeries = src,
               newValueEvent = event @ [SMA_onNewValue (nat period),
                 StdDev_onNewValue (nat period), BollingerBands_onNewValue],
               bands = \<lparr>bb_sma = SequenceDataSeries D maxLen,
                 bb_stdDev = SequenceDataSeries D maxLen,
                 bb_upperBand = SequenceDataSeries D maxLen,
                 bb_lowerBand = SequenceDataSeries D maxLen,
                 bb_numStdDev = k,
                 bb_bandWidth = SequenceDataSeries D maxLen\<rparr>\<rparr>"
  using assms
  by (auto simp: BollingerBands_def SMA_def StdDev_def subscribe_def split: if_splits)

lemma ex_BollingerBands:
  "BollingerBands None ex_source event 2 2 maxLen = Inr (ex_pipeline event maxLen)"
  by (simp add: BollingerBands_def SMA_def StdDev_def subscribe_def ex_pipeline_def
      SequenceDataSeries_def split: option.splits)

lemmas run_simps = ex_pipeline_def ex_source_def source_append_def onNewValue_def
  band_values_def getitem_def appendWithDateTime_def SMA_value_def StdDev_value_def
  window_def mean_def stddev_def Let_def

text \<open>
  The scenario of the spec: period 2, two standard deviations, source values
  \<open>10, 12, 14, None, 16\<close>.
\<close>

lemma scenario_no_error:
  "snd (feed [(1, Some 10), (2, Some 12), (3, Some 14), (4, None), (5, Some 16)]
          (ex_pipeline [] None)) = None"
  by (simp add: run_simps)

lemma scenario_upperBand:
  "ds_entries (bb_upperBand (bands (fst
     (feed [(1, Some 10), (2, Some 12), (3, Some 14), (4, None), (5, Some 16)]
        (ex_pipeline [] None))))) =
   [(1, None), (2, Some 13), (3, Some 15), (4, None), (5, None)]"
  by (simp add: run_simps)

lemma scenario_lowerBand:
  "ds_entries (bb_lowerBand (bands (fst
     (feed [(1, Some 10), (2, Some 12), (3, Some 14), (4, None), (5, Some 16)]
        (ex_pipeline [] None))))) =
   [(1, None), (2, Some 9), (3, Some 11), (4, None), (5, None)]"
  by (simp add: run_simps)

lemma scenario_bandWidth:
  "ds_entries (bb_bandWidth (bands (fst
     (feed [(1, Some 10), (2, Some 12), (3, Some 14), (4, None), (5, Some 16)]
        (ex_pipeline [] None))))) =
   [(1, None), (2, Some (1 / 11)), (3, Some (1 / 13)), (4, None), (5, None)]"
  by (simp add: run_simps)

text \<open>
  C5 (as amended). After \<open>n\<close> appends to the source series, none of which raised, the
  source has received the \<open>n\<close> ticks, and each of the upper band, the lower band and
  the band width has received one entry per tick, absent values included, carrying
  the timestamp of its tick: the timestamps a series holds are those of the last
  \<open>min n maxLen\<close> ticks in their order when its capacity is \<open>maxLen\<close>, those of all
  \<open>n\<close> ticks when it has no bound, and every further append that does not raise adds
  one entry with its timestamp to each of the three series.
\<close>

theorem outputs_aligned:
  assumes "BollingerBands D src event period k maxLen = Inr p0"
    and "set event \<subseteq> {Other}"
    and "feed ticks p0 = (p, None)"
    and "cap = ds_maxLen (SequenceDataSeries D maxLen)"
  shows "dataSeries p = foldl (\<lambda>s t. appendWithDateTime (fst t) (snd t) s) src ticks \<and>
         map fst (ds_entries (bb_upperBand (bands p))) = latest cap (map fst ticks) \<and>
         map fst (ds_entries (bb_lowerBand (bands p))) = latest cap (map fst ticks) \<and>
         map fst (ds_entries (bb_bandWidth (bands p))) = latest cap (map fst ticks) \<and>
         length (ds_entries (bb_upperBand (bands p))) = held cap (length ticks) \<and>
         length (ds_entries (bb_lowerBand (bands p))) = held cap (length ticks) \<and>
         length (ds_entries (bb_bandWidth (bands p))) = held cap (length ticks) \<and>
         (source_append dateTime val p = (p', None) \<longrightarrow>
            (\<exists>u l w.
               bb_upperBand (bands p') =
                 appendWithDateTime dateTime u (bb_upperBand (bands p)) \<and>
               bb_lowerBand (bands p') =
                 appendWithDateTime dateTime l (bb_lowerBand (bands p)) \<and>
               bb_bandWidth (bands p') =
                 appendWithDateTime dateTime w (bb_bandWidth (bands p))))"
proof -
  note p0 = BollingerBands_Inr(2) [OF assms(1)]
  have ev0: "newValueEvent p0 = event @ [SMA_onNewValue (nat period),
              StdDev_onNewValue (nat period), BollingerBands_onNewValue]"
    by (simp add: p0)
  have ev: "newValueEvent p = event @ [SMA_onNewValue (nat period),
              StdDev_onNewValue (nat period), BollingerBands_onNewValue]"
    using feed_newValueEvent [of ticks p0] ev0 by (simp add: assms(3))
  have src: "dataSeries p = foldl (\<lambda>s t. appendWithDateTime (fst t) (snd t) s) src ticks"
    using feed_dataSeries [OF assms(3)] by (simp add: p0)
  have "aligned cap [] (bands p0)"
    by (simp add: p0 assms(4) aligned_def latest_def SequenceDataSeries_def
        split: option.splits)
  from feed_aligned [OF ev0 assms(2) this assms(3)]
  have al: "aligned cap (map fst ticks) (bands p)" by simp
  then have ts: "map fst (ds_entries (bb_upperBand (bands p))) = latest cap (map fst ticks)"
    "map fst (ds_entries (bb_lowerBand (bands p))) = latest cap (map fst ticks)"
    "map fst (ds_entries (bb_bandWidth (bands p))) = latest cap (map fst ticks)"
    by (simp_all add: aligned_def)
  have len: "length (ds_entries (bb_upperBand (bands p))) = held cap (length ticks)"
    "length (ds_entries (bb_lowerBand (bands p))) = held cap (length ticks)"
    "length (ds_entries (bb_bandWidth (bands p))) = held cap (length ticks)"
    using ts [THEN arg_cong, of length] by (simp_all add: length_latest)
  have step: "\<exists>u l w.
      bb_upperBand (bands p') = appendWithDateTime dateTime u (bb_upperBand (bands p)) \<and>
      bb_lowerBand (bands p') = appendWithDateTime dateTime l (bb_lowerBand (bands p)) \<and>
      bb_bandWidth (bands p') = appendWithDateTime dateTime w (bb_bandWidth (bands p))"
    if "source_append dateTime val p = (p', None)"
    using source_append_appends [OF ev assms(2) that] .
  from src ts len step show ?thesis by blast
qed

theorem outputs_aligned_witness:
  "map fst (ds_entries (bb_upperBand (bands (fst
     (feed [(1, Some 10), (2, Some 12), (3, Some 14), (4, None), (5, Some 16)]
        (ex_pipeline [] None)))))) = [1, 2, 3, 4, 5] \<and>
   length (ds_entries (bb_bandWidth (bands (fst
     (feed [(1, Some 10), (2, Some 12), (3, Some 14), (4, None), (5, Some 16)]
        (ex_pipeline [] None)))))) = 5 \<and>
   (\<exists>u. bb_upperBand (bands (fst (source_append 6 (Some 18) (fst
       (feed [(1, Some 10), (2, Some 12), (3, Some 14), (4, None), (5, Some 16)]
          (ex_pipeline [] None)))))) =
      appendWithDateTime 6 u (bb_upperBand (bands (fst
       (feed [(1, Some 10), (2, Some 12), (3, Some 14), (4, None), (5, Some 16)]
          (ex_pipeline [] None))))))"
proof -
  let ?ticks = "[(1, Some 10), (2, Some 12), (3, Some 14), (4, None), (5, Some 16)]
                  :: (dateTime \<times> real option) list"
  let ?p = "fst (feed ?ticks (ex_pipeline [] None))"
  have c: "BollingerBands None ex_source [] 2 2 None = Inr (ex_pipeline [] None)"
    by (rule ex_BollingerBands)
  have o: "set ([] :: handler list) \<subseteq> {Other}" by simp
  have f: "feed ?ticks (ex_pipeline [] None) = (?p, None)"
    using scenario_no_error by (simp only: prod_eq_iff fst_conv snd_conv simp_thms)
  have cap: "None = ds_maxLen (SequenceDataSeries None None)"
    by (simp add: SequenceDataSeries_def)
  have "snd (source_append 6 (Some 18) ?p) = None"
    by (simp add: run_simps)
  then have g: "source_append 6 (Some 18) ?p = (fst (source_append 6 (Some 18) ?p), None)"
    by (simp only: prod_eq_iff fst_conv snd_conv simp_thms)
  have ts: "latest None (map fst ?ticks) = [1, 2, 3, 4, 5]"
    by (simp add: latest_def)
  have n: "held None (length ?ticks) = 5"
    by (simp add: held_def)
  from outputs_aligned [OF c o f cap, of 6 "Some 18" "fst (source_append 6 (Some 18) ?p)"] g
  show ?thesis
    unfolding ts n by blast
qed

text \<open>
  C5 as stated fails in two ways. With \<open>maxLen = 2\<close> three appends leave two entries
  in each output series. With a window \<open>0, 0\<close> the second append raises after the
  source has stored its value, and the outputs hold one entry for two source ticks.
\<close>

theorem outputs_aligned_counterexample:
  "BollingerBands None ex_source [] 2 2 (Some 2) = Inr (ex_pipeline [] (Some 2)) \<and>
   snd (feed [(1, None), (2, None), (3, None)] (ex_pipeline [] (Some 2))) = None \<and>
   length (ds_entries (bb_upperBand (bands (fst
     (feed [(1, None), (2, None), (3, None)] (ex_pipeline [] (Some 2))))))) = 2 \<and>
   BollingerBands None ex_source [] 2 2 None = Inr (ex_pipeline [] None) \<and>
   snd (feed [(1, Some 0), (2, Some 0)] (ex_pipeline [] None)) = Some ZeroDivisionError \<and>
   length (ds_entries (dataSeries (fst
     (feed [(1, Some 0), (2, Some 0)] (ex_pipeline [] None))))) = 2 \<and>
   length (ds_entries (bb_upperBand (bands (fst
     (feed [(1, Some 0), (2, Some 0)] (ex_pipeline [] None)))))) = 1"
  by (simp add: ex_BollingerBands) (simp add: run_simps)

text \<open>
  C6. \<open>BollingerBands\<close> subscribes its handler to the source after the handlers of its
  moving average and its standard deviation. So in every later notification the
  composite's handler is called last, on a pipeline in which the source holds the value
  and both statistic series hold their entry for this tick; when the series have room
  for an entry, the latest values the handler reads are the statistics of the current
  window.
\<close>

theorem handler_reads_updated_statistics:
  assumes "BollingerBands D src event period k maxLen = Inr p0"
    and "set event \<subseteq> {Other}"
  shows "newValueEvent p0 =
           event @ [SMA_onNewValue (nat period), StdDev_onNewValue (nat period),
                    BollingerBands_onNewValue] \<and>
         (let p = fst (feed ticks p0); q = at_handler (nat period) dateTime val p
          in source_append dateTime val p = call BollingerBands_onNewValue dateTime val q \<and>
             (ds_maxLen (SequenceDataSeries D maxLen) \<noteq> Some 0 \<longrightarrow>
                getitem (bb_sma (bands q)) (- 1) =
                  Inr (SMA_value (nat period) (dataSeries q)) \<and>
                getitem (bb_stdDev (bands q)) (- 1) =
                  Inr (StdDev_value (nat period) (dataSeries q))))"
proof -
  let ?n = "nat period"
  let ?p = "fst (feed ticks p0)"
  let ?q = "at_handler ?n dateTime val ?p"
  note p0 = BollingerBands_Inr(2) [OF assms(1)]
  have ev0: "newValueEvent p0 =
      event @ [SMA_onNewValue ?n, StdDev_onNewValue ?n, BollingerBands_onNewValue]"
    by (simp add: p0)
  then have ev: "newValueEvent ?p =
      event @ [SMA_onNewValue ?n, StdDev_onNewValue ?n, BollingerBands_onNewValue]"
    by (simp add: feed_newValueEvent)
  have run: "source_append dateTime val ?p = call BollingerBands_onNewValue dateTime val ?q"
    by (rule source_append_at_handler [OF ev assms(2)])
  have caps: "ds_maxLen (bb_sma (bands ?p)) = ds_maxLen (SequenceDataSeries D maxLen)"
    "ds_maxLen (bb_stdDev (bands ?p)) = ds_maxLen (SequenceDataSeries D maxLen)"
    by (simp_all add: feed_sma_maxLen feed_stdDev_maxLen p0)
  have sma: "bb_sma (bands ?q) =
      appendWithDateTime dateTime (SMA_value ?n (dataSeries ?q)) (bb_sma (bands ?p))"
    and sd: "bb_stdDev (bands ?q) =
      appendWithDateTime dateTime (StdDev_value ?n (dataSeries ?q)) (bb_stdDev (bands ?p))"
    by (simp_all add: at_handler_def Let_def)
  have "getitem (bb_sma (bands ?q)) (- 1) = Inr (SMA_value ?n (dataSeries ?q)) \<and>
        getitem (bb_stdDev (bands ?q)) (- 1) = Inr (StdDev_value ?n (dataSeries ?q))"
    if r: "ds_maxLen (SequenceDataSeries D maxLen) \<noteq> Some 0"
  proof -
    from r caps have a: "ds_maxLen (bb_sma (bands ?p)) \<noteq> Some 0"
      and b: "ds_maxLen (bb_stdDev (bands ?p)) \<noteq> Some 0"
      by simp_all
    show ?thesis
      unfolding sma sd
      using getitem_appendWithDateTime [OF a] getitem_appendWithDateTime [OF b] by blast
  qed
  with ev0 run show ?thesis unfolding Let_def by blast
qed

theorem handler_reads_updated_statistics_witness:
  "source_append 2 (Some 12) (fst (feed [(1, Some 10)] (ex_pipeline [Other] None))) =
     call BollingerBands_onNewValue 2 (Some 12)
       (at_handler 2 2 (Some 12) (fst (feed [(1, Some 10)] (ex_pipeline [Other] None)))) \<and>
   getitem (bb_sma (bands
     (at_handler 2 2 (Some 12) (fst (feed [(1, Some 10)] (ex_pipeline [Other] None))))))
     (- 1) = Inr (Some 11) \<and>
   getitem (bb_stdDev (bands
     (at_handler 2 2 (Some 12) (fst (feed [(1, Some 10)] (ex_pipeline [Other] None))))))
     (- 1) = Inr (Some 1)"
proof -
  let ?q = "at_handler 2 2 (Some 12) (fst (feed [(1, Some 10)] (ex_pipeline [Other] None)))"
  have c: "BollingerBands None ex_source [Other] 2 2 None = Inr (ex_pipeline [Other] None)"
    by (rule ex_BollingerBands)
  have o: "set [Other] \<subseteq> {Other}" by simp
  have room: "ds_maxLen (SequenceDataSeries None None) \<noteq> Some 0"
    by (simp add: SequenceDataSeries_def)
  have n: "nat 2 = 2" by simp
  have m: "SMA_value 2 (dataSeries ?q) = Some 11"
    by (simp add: at_handler_def run_simps)
  have d: "StdDev_value 2 (dataSeries ?q) = Some 1"
    by (simp add: at_handler_def run_simps)
  from handler_reads_updated_statistics [OF c o,
      where ticks = "[(1, Some 10)]" and dateTime = 2 and val = "Some 12"] room
  show ?thesis
    unfolding Let_def n m d by blast
qed

text \<open>
  C7. Constructing a moving average, a standard deviation or a \<open>BollingerBands\<close> with a
  period below 2 fails with \<open>ConfigError\<close>; with any period from 2 on the construction
  succeeds.
\<close>

theorem period_validated:
  "(period < 2 \<longrightarrow>
      SMA D event period maxLen = Inl ConfigError \<and>
      StdDev D event period maxLen = Inl ConfigError \<and>
      BollingerBands D src event period k maxLen = Inl ConfigError) \<and>
   (2 \<le> period \<longrightarrow>
      (\<exists>s ev. SMA D event period maxLen = Inr (s, ev)) \<and>
      (\<exists>s ev. StdDev D event period maxLen = Inr (s, ev)) \<and>
      (\<exists>p. BollingerBands D src event period k maxLen = Inr p))"
  by (simp add: BollingerBands_def SMA_def StdDev_def)


theorem period_validated_witness:
  "SMA None [] 1 None = Inl ConfigError \<and>
   StdDev None [] 1 None = Inl ConfigError \<and>
   BollingerBands None ex_source [] 1 2 None = Inl ConfigError \<and>
   (\<exists>p. BollingerBands None ex_source [] 2 2 None = Inr p)"
proof -
  have lt: "(1::int) < 2" and ge: "(2::int) \<le> 2" by simp_all
  from period_validated [where period = 1 and D = None and event = "[]" and maxLen = None
      and src = ex_source and k = 2] lt
    period_validated [where period = 2 and D = None and event = "[]" and maxLen = None
      and src = ex_source and k = 2] ge
  show ?thesis by blast
qed

end
